theory Spec2Isabelle
  imports Main
begin

section \<open>The Pet resource service (server.py)\<close>

text \<open>
  A shallow embedding of the Flask service in \<^verbatim>\<open>server.py\<close>: the \<^verbatim>\<open>Pet\<close> model with
  \<^verbatim>\<open>serialize\<close> and \<^verbatim>\<open>deserialize\<close>, the five view functions on \<^verbatim>\<open>/pets\<close>, and the
  error handlers that turn a raised exception into a response.

  Conventions of the embedding:
  \<^item> a value parsed from JSON (what \<^verbatim>\<open>request.get_json()\<close> returns) is a \<open>json\<close>;
    Python's \<^verbatim>\<open>None\<close> is \<open>JNull\<close>, a \<^verbatim>\<open>dict\<close> is an association list read with
    \<open>map_of\<close>. Numbers are the integral ones;
  \<^item> a raised exception is a value of \<open>exn\<close>; a view returns \<open>exn + response \<times> store\<close>;
  \<^item> the table \<^verbatim>\<open>pets\<close> is the list of its committed rows, in row order, behind the
    SQLite engine the application configures: an id or a column value that the engine
    cannot bind raises, and a text column gives back text. A view that raises never
    completes \<^verbatim>\<open>db.session.commit()\<close>, and the request's session is dropped with the
    request, so the table a failed request leaves behind is the one it found.
\<close>

subsection \<open>JSON values and Python exceptions\<close>

datatype json =
    JNull
  | JBool bool
  | JNum int
  | JStr string
  | JArr "json list"
  | JObj "(string \<times> json) list"

datatype exn =
    KeyError string
  | TypeError
  | DataValidationError string
  | NotFound string
  | BuildError
  | OverflowError
  | InterfaceError

text \<open>\<^verbatim>\<open>data[key]\<close> with a string key: only a dict can be subscripted by a string.\<close>

fun getitem :: "json \<Rightarrow> string \<Rightarrow> exn + json" where
  "getitem (JObj kvs) k = (case map_of kvs k of None \<Rightarrow> Inl (KeyError k) | Some v \<Rightarrow> Inr v)"
| "getitem _ k = Inl TypeError"

text \<open>\<^verbatim>\<open>str(n)\<close> for an integer, used by \<^verbatim>\<open>format\<close> and by the URL builder.\<close>

definition digit :: "nat \<Rightarrow> char" where
  "digit d = ''0123456789'' ! d"

function str_nat :: "nat \<Rightarrow> string" where
  "str_nat n = (if n < 10 then [digit n] else str_nat (n div 10) @ [digit (n mod 10)])"
  by pat_completeness auto
termination
  by (relation "measure id") auto

declare str_nat.simps [simp del]

definition str_int :: "int \<Rightarrow> string" where
  "str_int i = (if i < 0 then CHR ''-'' # str_nat (nat (- i)) else str_nat (nat i))"

subsection \<open>Responses and error handlers\<close>

datatype body = Text string | Json json

record response =
  status :: nat
  payload :: body
  headers :: "(string \<times> string) list"

definition make_response :: "body \<Rightarrow> nat \<Rightarrow> (string \<times> string) list \<Rightarrow> response" where
  "make_response b s hs = \<lparr>status = s, payload = b, headers = hs\<rparr>"

definition jsonify :: "json \<Rightarrow> body" where
  "jsonify j = Json j"

definition HTTP_200_OK :: nat where "HTTP_200_OK = 200"
definition HTTP_201_CREATED :: nat where "HTTP_201_CREATED = 201"
definition HTTP_204_NO_CONTENT :: nat where "HTTP_204_NO_CONTENT = 204"
definition HTTP_400_BAD_REQUEST :: nat where "HTTP_400_BAD_REQUEST = 400"
definition HTTP_404_NOT_FOUND :: nat where "HTTP_404_NOT_FOUND = 404"
definition HTTP_500_INTERNAL_SERVER_ERROR :: nat where "HTTP_500_INTERNAL_SERVER_ERROR = 500"

definition request_validation_error :: "string \<Rightarrow> response" where
  "request_validation_error message =
     make_response
       (jsonify (JObj [(''status'', JNum 400), (''error'', JStr ''Bad Request''),
                       (''message'', JStr message)]))
       HTTP_400_BAD_REQUEST []"

definition not_found :: "string \<Rightarrow> response" where
  "not_found description =
     make_response
       (jsonify (JObj [(''status'', JNum 404), (''error'', JStr ''Not Found''),
                       (''message'', JStr description)]))
       HTTP_404_NOT_FOUND []"

definition internal_error :: response where
  "internal_error =
     make_response
       (jsonify (JObj [(''status'', JNum 500), (''error'', JStr ''Internal Server Error''),
                       (''message'', JStr ''Huston... we have a problem.'')]))
       HTTP_500_INTERNAL_SERVER_ERROR []"

text \<open>
  The handler Flask picks for an exception that leaves a view:
  \<^verbatim>\<open>@app.errorhandler(DataValidationError)\<close>, \<^verbatim>\<open>@app.errorhandler(404)\<close>, and
  \<^verbatim>\<open>@app.errorhandler(500)\<close> for anything else.
\<close>

fun errorhandler :: "exn \<Rightarrow> response" where
  "errorhandler (DataValidationError m) = request_validation_error m"
| "errorhandler (NotFound d) = not_found d"
| "errorhandler _ = internal_error"

subsection \<open>The Pet model\<close>

record pet =
  pet_id :: "int option"
  name :: json
  category :: json

text \<open>\<^verbatim>\<open>Pet()\<close>: every column attribute is \<^verbatim>\<open>None\<close>.\<close>

definition Pet :: pet where
  "Pet = \<lparr>pet_id = None, name = JNull, category = JNull\<rparr>"

definition serialize :: "pet \<Rightarrow> json" where
  "serialize self =
     JObj [(''id'', (case pet_id self of None \<Rightarrow> JNull | Some i \<Rightarrow> JNum i)),
           (''name'', name self),
           (''category'', category self)]"

text \<open>The two \<^verbatim>\<open>except\<close> clauses of \<^verbatim>\<open>deserialize\<close>.\<close>

fun deserialize_except :: "exn \<Rightarrow> exn" where
  "deserialize_except (KeyError k) = DataValidationError (''Invalid pet: missing '' @ k)"
| "deserialize_except TypeError =
     DataValidationError ''Invalid pet: body of request contained bad or no data''"
| "deserialize_except e = e"

text \<open>
  \<^verbatim>\<open>deserialize\<close> assigns \<^verbatim>\<open>self.name\<close> before it reads \<^verbatim>\<open>data['category']\<close>, so the
  object can be left half-updated when it raises. The result is the object after the
  call, and the exception raised, if any.
\<close>

definition deserialize :: "pet \<Rightarrow> json \<Rightarrow> pet \<times> exn option" where
  "deserialize self data =
     (case getitem data ''name'' of
        Inl e \<Rightarrow> (self, Some (deserialize_except e))
      | Inr n \<Rightarrow>
          (case getitem data ''category'' of
             Inl e \<Rightarrow> (self\<lparr>name := n\<rparr>, Some (deserialize_except e))
           | Inr c \<Rightarrow> (self\<lparr>name := n, category := c\<rparr>, None)))"

text \<open>
  \<^verbatim>\<open>url_for('get_pets', id=self.id, _external=True)\<close>: the route \<^verbatim>\<open>/pets/<int:id>\<close>
  under the root URL of the request. The URL cannot be built without an id.
\<close>

definition self_url :: "string \<Rightarrow> pet \<Rightarrow> exn + string" where
  "self_url url_root self =
     (case pet_id self of
        None \<Rightarrow> Inl BuildError
      | Some i \<Rightarrow> Inr (url_root @ ''pets/'' @ str_int i))"

subsection \<open>The table and the session\<close>

type_synonym store = "pet list"

text \<open>
  The table is an SQLite table. Its integer key holds a signed 64-bit integer: a larger
  Python integer cannot be bound as a statement parameter, and the attempt raises
  \<^verbatim>\<open>OverflowError\<close>.
\<close>

definition fits_int64 :: "int \<Rightarrow> bool" where
  "fits_int64 i \<longleftrightarrow> - (2 ^ 63) \<le> i \<and> i < 2 ^ 63"

text \<open>
  The columns \<^verbatim>\<open>name\<close> and \<^verbatim>\<open>category\<close> are \<^verbatim>\<open>db.String(63)\<close>: text, or \<^verbatim>\<open>NULL\<close>. This is
  what such a column holds, and hands back at the next load, for a value written to it:
  a string and \<^verbatim>\<open>None\<close> themselves (SQLite does not enforce the length), an integer and a
  boolean (the integer 1 or 0) as their decimal text, and a list or a dict cannot be
  bound at all.
\<close>

fun bind_text :: "json \<Rightarrow> exn + json" where
  "bind_text JNull = Inr JNull"
| "bind_text (JStr s) = Inr (JStr s)"
| "bind_text (JNum n) = (if fits_int64 n then Inr (JStr (str_int n)) else Inl OverflowError)"
| "bind_text (JBool b) = Inr (JStr (if b then ''1'' else ''0''))"
| "bind_text (JArr xs) = Inl InterfaceError"
| "bind_text (JObj kvs) = Inl InterfaceError"

text \<open>
  \<^verbatim>\<open>Pet.query.get(id)\<close>: the id is bound as the parameter of a \<^verbatim>\<open>SELECT\<close>; the result is
  the row with this primary key, or \<^verbatim>\<open>None\<close>.
\<close>

definition query_get :: "store \<Rightarrow> int \<Rightarrow> exn + pet option" where
  "query_get db i =
     (if fits_int64 i then Inr (find (\<lambda>p. pet_id p = Some i) db) else Inl OverflowError)"

text \<open>
  \<^verbatim>\<open>Pet.query.get_or_404(id)\<close> aborts with 404; the exception carries the library's
  default description.
\<close>

definition default_not_found_description :: string where
  "default_not_found_description =
     ''The requested URL was not found on the server.  If you entered the URL manually please check your spelling and try again.''"

definition query_get_or_404 :: "store \<Rightarrow> int \<Rightarrow> exn + pet" where
  "query_get_or_404 db i =
     (case query_get db i of
        Inl e \<Rightarrow> Inl e
      | Inr None \<Rightarrow> Inl (NotFound default_not_found_description)
      | Inr (Some p) \<Rightarrow> Inr p)"

definition query_all :: "store \<Rightarrow> pet list" where
  "query_all db = db"

text \<open>\<^verbatim>\<open>Pet.query.filter(Pet.category == category)\<close>: equality with the text given.\<close>

definition query_filter_category :: "store \<Rightarrow> string \<Rightarrow> pet list" where
  "query_filter_category db c = filter (\<lambda>p. category p = JStr c) db"

text \<open>
  \<^verbatim>\<open>db.session.add(pet); db.session.commit()\<close> for an object without an id. The
  \<^verbatim>\<open>INSERT\<close> binds \<^verbatim>\<open>name\<close>, then \<^verbatim>\<open>category\<close>; the table assigns the integer primary key,
  one more than the largest key in use (1 in an empty table; this is SQLite's rule
  as long as that key fits), and appends the row. The commit expires the object, so
  what \<^verbatim>\<open>serialize\<close> reads afterwards is the row as the table holds it.
\<close>

definition row_ids :: "store \<Rightarrow> int list" where
  "row_ids db = List.map_filter pet_id db"

definition next_id :: "store \<Rightarrow> int" where
  "next_id db = fold max (row_ids db) 0 + 1"

definition session_add_commit :: "store \<Rightarrow> pet \<Rightarrow> exn + pet \<times> store" where
  "session_add_commit db p =
     (case bind_text (name p) of
        Inl e \<Rightarrow> Inl e
      | Inr n \<Rightarrow>
          (case bind_text (category p) of
             Inl e \<Rightarrow> Inl e
           | Inr c \<Rightarrow>
               (let p' = p\<lparr>pet_id := Some (next_id db), name := n, category := c\<rparr>
                in Inr (p', db @ [p']))))"

text \<open>
  \<^verbatim>\<open>db.session.commit()\<close> with a loaded object changed: the \<^verbatim>\<open>UPDATE\<close> binds the new
  values and rewrites the row of the object's key. (An attribute left as it was loaded
  is a text or \<^verbatim>\<open>NULL\<close>, which binds as itself.)
\<close>

definition session_commit :: "store \<Rightarrow> pet \<Rightarrow> exn + pet \<times> store" where
  "session_commit db p =
     (case bind_text (name p) of
        Inl e \<Rightarrow> Inl e
      | Inr n \<Rightarrow>
          (case bind_text (category p) of
             Inl e \<Rightarrow> Inl e
           | Inr c \<Rightarrow>
               (let p' = p\<lparr>name := n, category := c\<rparr>
                in Inr (p', map (\<lambda>r. if pet_id r = pet_id p then p' else r) db))))"

text \<open>\<^verbatim>\<open>db.session.delete(pet); db.session.commit()\<close>: the row with its key goes.\<close>

definition session_delete_commit :: "store \<Rightarrow> pet \<Rightarrow> store" where
  "session_delete_commit db p = filter (\<lambda>r. pet_id r \<noteq> pet_id p) db"

subsection \<open>The views\<close>

type_synonym view_result = "exn + response \<times> store"

text \<open>
  \<^verbatim>\<open>list_pets\<close>: \<^verbatim>\<open>request.args.get('category')\<close> is \<^verbatim>\<open>None\<close> without the parameter;
  \<^verbatim>\<open>if category:\<close> is the truth value of that, false for \<^verbatim>\<open>None\<close> and for \<^verbatim>\<open>''\<close>.
\<close>

definition list_pets :: "store \<Rightarrow> string option \<Rightarrow> view_result" where
  "list_pets db category_arg =
     (let pets = (case category_arg of
                    None \<Rightarrow> query_all db
                  | Some c \<Rightarrow> if c \<noteq> [] then query_filter_category db c else query_all db);
          results = map serialize pets
      in Inr (make_response (jsonify (JArr results)) HTTP_200_OK [], db))"

definition get_pets :: "store \<Rightarrow> int \<Rightarrow> view_result" where
  "get_pets db i =
     (case query_get db i of
        Inl e \<Rightarrow> Inl e
      | Inr None \<Rightarrow>
          Inl (NotFound (''Pet with id '' @ [CHR 0x27] @ str_int i @ [CHR 0x27] @ '' was not found.''))
      | Inr (Some p) \<Rightarrow> Inr (make_response (jsonify (serialize p)) HTTP_200_OK [], db))"

definition create_pets :: "string \<Rightarrow> store \<Rightarrow> json \<Rightarrow> view_result" where
  "create_pets url_root db data =
     (case deserialize Pet data of
        (_, Some e) \<Rightarrow> Inl e
      | (p, None) \<Rightarrow>
          (case session_add_commit db p of
             Inl e \<Rightarrow> Inl e
           | Inr (p', db') \<Rightarrow>
               (case self_url url_root p' of
                  Inl e \<Rightarrow> Inl e
                | Inr url \<Rightarrow>
                    Inr (make_response (jsonify (serialize p')) HTTP_201_CREATED
                           [(''Location'', url)], db'))))"

definition update_pets :: "store \<Rightarrow> int \<Rightarrow> json \<Rightarrow> view_result" where
  "update_pets db i data =
     (case query_get_or_404 db i of
        Inl e \<Rightarrow> Inl e
      | Inr p \<Rightarrow>
          (case deserialize p data of
             (_, Some e) \<Rightarrow> Inl e
           | (p', None) \<Rightarrow>
               (case session_commit db p' of
                  Inl e \<Rightarrow> Inl e
                | Inr (p'', db') \<Rightarrow>
                    Inr (make_response (jsonify (serialize p'')) HTTP_200_OK [], db'))))"

definition delete_pets :: "store \<Rightarrow> int \<Rightarrow> view_result" where
  "delete_pets db i =
     (case query_get db i of
        Inl e \<Rightarrow> Inl e
      | Inr None \<Rightarrow> Inr (make_response (Text []) HTTP_204_NO_CONTENT [], db)
      | Inr (Some p) \<Rightarrow>
          Inr (make_response (Text []) HTTP_204_NO_CONTENT [], session_delete_commit db p))"

text \<open>
  One request against the table \<open>db\<close>: the response the client gets and the table
  afterwards. An exception becomes the response of its handler and commits nothing.
\<close>

definition dispatch :: "store \<Rightarrow> view_result \<Rightarrow> response \<times> store" where
  "dispatch db r = (case r of Inl e \<Rightarrow> (errorhandler e, db) | Inr (resp, db') \<Rightarrow> (resp, db'))"

definition GET_pets :: "store \<Rightarrow> string option \<Rightarrow> response \<times> store" where
  "GET_pets db category_arg = dispatch db (list_pets db category_arg)"

definition GET_pet :: "store \<Rightarrow> int \<Rightarrow> response \<times> store" where
  "GET_pet db i = dispatch db (get_pets db i)"

definition POST_pets :: "string \<Rightarrow> store \<Rightarrow> json \<Rightarrow> response \<times> store" where
  "POST_pets url_root db data = dispatch db (create_pets url_root db data)"

definition PUT_pet :: "store \<Rightarrow> int \<Rightarrow> json \<Rightarrow> response \<times> store" where
  "PUT_pet db i data = dispatch db (update_pets db i data)"

definition DELETE_pet :: "store \<Rightarrow> int \<Rightarrow> response \<times> store" where
  "DELETE_pet db i = dispatch db (delete_pets db i)"

subsection \<open>Vocabulary of the properties\<close>

text \<open>A body is valid when it is a JSON object that has the two required keys.\<close>

fun has_key :: "json \<Rightarrow> string \<Rightarrow> bool" where
  "has_key (JObj kvs) k = (map_of kvs k \<noteq> None)"
| "has_key _ k = False"

fun is_object :: "json \<Rightarrow> bool" where
  "is_object (JObj kvs) = True"
| "is_object _ = False"

definition valid_body :: "json \<Rightarrow> bool" where
  "valid_body data \<longleftrightarrow> is_object data \<and> has_key data ''name'' \<and> has_key data ''category''"

fun json_keys :: "json \<Rightarrow> string list" where
  "json_keys (JObj kvs) = map fst kvs"
| "json_keys _ = []"

text \<open>A value that a text column holds as it is: a string, or \<^verbatim>\<open>None\<close>.\<close>

fun text_or_null :: "json \<Rightarrow> bool" where
  "text_or_null (JStr s) = True"
| "text_or_null JNull = True"
| "text_or_null _ = False"

definition records_with_category :: "store \<Rightarrow> string \<Rightarrow> pet list" where
  "records_with_category db x = [p \<leftarrow> db. category p = JStr x]"

subsection \<open>Example rows\<close>

text \<open>The two pets of the repository's test suite, as rows with the ids 1 and 2.\<close>

definition fido :: pet where
  "fido = \<lparr>pet_id = Some 1, name = JStr ''fido'', category = JStr ''dog''\<rparr>"

definition kitty :: pet where
  "kitty = \<lparr>pet_id = Some 2, name = JStr ''kitty'', category = JStr ''cat''\<rparr>"

section \<open>Properties\<close>

subsection \<open>What deserialize does with a body\<close>

lemma deserialize_invalid:
  "\<not> valid_body data \<Longrightarrow> \<exists>m. snd (deserialize self data) = Some (DataValidationError m)"
  by (cases data) (auto simp: valid_body_def deserialize_def split: option.splits sum.splits)

lemma deserialize_valid:
  "valid_body data \<Longrightarrow>
     \<exists>n c. getitem data ''name'' = Inr n \<and> getitem data ''category'' = Inr c \<and>
       deserialize self data = (self\<lparr>name := n, category := c\<rparr>, None)"
  by (cases data) (auto simp: valid_body_def deserialize_def split: option.splits sum.splits)

lemma deserialize_values:
  "getitem data ''name'' = Inr n \<Longrightarrow> getitem data ''category'' = Inr c \<Longrightarrow>
     deserialize self data = (self\<lparr>name := n, category := c\<rparr>, None)"
  by (simp add: deserialize_def)

lemma status_request_validation_error: "status (request_validation_error m) = 400"
  by (simp add: request_validation_error_def make_response_def HTTP_400_BAD_REQUEST_def)

lemma status_not_found: "status (not_found d) = 404"
  by (simp add: not_found_def make_response_def HTTP_404_NOT_FOUND_def)

lemma status_internal_error: "status internal_error = 500"
  by (simp add: internal_error_def make_response_def HTTP_500_INTERNAL_SERVER_ERROR_def)

lemma bind_text_text_or_null: "text_or_null v \<Longrightarrow> bind_text v = Inr v"
  by (cases v) simp_all

subsection \<open>Looking rows up by id\<close>

lemma query_get_fits:
  "fits_int64 i \<Longrightarrow> query_get db i = Inr (find (\<lambda>p. pet_id p = Some i) db)"
  by (simp add: query_get_def)

lemma find_filter_other: "find (\<lambda>p. pet_id p = Some i) (filter (\<lambda>r. pet_id r \<noteq> Some i) db) = None"
  by (induction db) auto

lemma filter_absent: "find P xs = None \<Longrightarrow> filter (\<lambda>r. \<not> P r) xs = xs"
  by (induction xs) (auto split: if_splits)

lemma query_get_Some_id: "query_get db i = Inr (Some p) \<Longrightarrow> pet_id p = Some i"
  by (auto simp: query_get_def find_Some_iff split: if_splits)

lemma row_ids_mem: "p \<in> set db \<Longrightarrow> pet_id p = Some i \<Longrightarrow> i \<in> set (row_ids db)"
  by (force simp: row_ids_def map_filter_def)

lemma find_absent: "i \<notin> set (row_ids db) \<Longrightarrow> find (\<lambda>p. pet_id p = Some i) db = None"
  by (auto simp: find_None_iff dest: row_ids_mem)

lemma query_get_absent:
  "fits_int64 i \<Longrightarrow> i \<notin> set (row_ids db) \<Longrightarrow> query_get db i = Inr None"
  by (simp add: query_get_fits find_absent)

lemma fold_max_ge: "(a::int) \<le> fold max xs a"
  by (induction xs arbitrary: a) (auto intro: order_trans[OF max.cobounded2])

lemma fold_max_mem: "(x::int) \<in> set xs \<Longrightarrow> x \<le> fold max xs a"
proof (induction xs arbitrary: a)
  case Nil
  then show ?case by simp
next
  case (Cons y ys)
  show ?case
  proof (cases "x = y")
    case True
    have "max y a \<le> fold max ys (max y a)" by (rule fold_max_ge)
    with True show ?thesis by simp
  next
    case False
    with Cons show ?thesis by simp
  qed
qed

lemma next_id_unused: "next_id db \<notin> set (row_ids db)"
proof
  assume "next_id db \<in> set (row_ids db)"
  then have "next_id db \<le> fold max (row_ids db) 0" by (rule fold_max_mem)
  then show False by (simp add: next_id_def)
qed

lemma find_append_None: "find P xs = None \<Longrightarrow> find P (xs @ ys) = find P ys"
  by (induction xs) (auto split: if_splits)

lemma query_get_append_new:
  "fits_int64 (next_id db) \<Longrightarrow> pet_id q = Some (next_id db) \<Longrightarrow>
     query_get (db @ [q]) (next_id db) = Inr (Some q)"
  using find_absent[OF next_id_unused, of db]
  by (simp add: query_get_fits find_append_None)

subsection \<open>Creating with an invalid body\<close>

text \<open>
  C1. A \<^verbatim>\<open>POST /pets\<close> whose body is not a JSON object, or is an object without the key
  \<^verbatim>\<open>name\<close> or without the key \<^verbatim>\<open>category\<close>, is answered with status 400, and the table is
  the one the request found: no row is added.
\<close>

theorem create_pets_invalid_body_rejected:
  "\<not> valid_body data \<Longrightarrow>
     status (fst (POST_pets url_root db data)) = 400 \<and> snd (POST_pets url_root db data) = db"
  using deserialize_invalid[of data Pet]
  by (auto simp: POST_pets_def create_pets_def dispatch_def status_request_validation_error
        split: prod.splits option.splits)

theorem create_pets_invalid_body_rejected_witness:
  "\<not> valid_body (JObj [(''id'', JNum 0), (''category'', JStr ''cat''), (''available'', JBool True)]) \<and>
   status (fst (POST_pets ''http://localhost:5000/'' [fido]
     (JObj [(''id'', JNum 0), (''category'', JStr ''cat''), (''available'', JBool True)]))) = 400 \<and>
   snd (POST_pets ''http://localhost:5000/'' [fido]
     (JObj [(''id'', JNum 0), (''category'', JStr ''cat''), (''available'', JBool True)])) = [fido]"
  using create_pets_invalid_body_rejected
      [of "JObj [(''id'', JNum 0), (''category'', JStr ''cat''), (''available'', JBool True)]"
        "''http://localhost:5000/''" "[fido]"]
  by (simp add: valid_body_def)

subsection \<open>Deleting\<close>

text \<open>
  C2, as amended. For every id that fits the table's signed 64-bit integer key and every
  table, \<^verbatim>\<open>DELETE /pets/{id}\<close> answers 204 with an empty body, whether or not a row has
  that id. It removes the rows with that id and no other row. Afterwards no row has the
  id, so a second delete of the same id answers 204 again and changes nothing; a delete
  of an id that no row has leaves the table as it was.
\<close>

theorem delete_pets_idempotent:
  "fits_int64 i \<Longrightarrow>
     status (fst (DELETE_pet db i)) = 204 \<and>
     payload (fst (DELETE_pet db i)) = Text [] \<and>
     snd (DELETE_pet db i) = [r \<leftarrow> db. pet_id r \<noteq> Some i] \<and>
     query_get (snd (DELETE_pet db i)) i = Inr None \<and>
     status (fst (DELETE_pet (snd (DELETE_pet db i)) i)) = 204 \<and>
     payload (fst (DELETE_pet (snd (DELETE_pet db i)) i)) = Text [] \<and>
     snd (DELETE_pet (snd (DELETE_pet db i)) i) = snd (DELETE_pet db i) \<and>
     (i \<notin> set (row_ids db) \<longrightarrow> snd (DELETE_pet db i) = db)"
proof -
  assume fits: "fits_int64 i"
  have st: "status (fst (DELETE_pet d i)) = 204"
    and pl: "payload (fst (DELETE_pet d i)) = Text []" for d
    using fits
    by (simp_all add: DELETE_pet_def delete_pets_def dispatch_def make_response_def
          HTTP_204_NO_CONTENT_def query_get_fits split: option.splits)
  have absent: "snd (DELETE_pet d i) = d" if "find (\<lambda>p. pet_id p = Some i) d = None" for d
    using that fits by (simp add: DELETE_pet_def delete_pets_def dispatch_def query_get_fits)
  have rows: "snd (DELETE_pet db i) = [r \<leftarrow> db. pet_id r \<noteq> Some i]"
  proof (cases "find (\<lambda>p. pet_id p = Some i) db")
    case None
    then show ?thesis using filter_absent[OF None] by (simp add: absent)
  next
    case (Some p)
    with fits have "query_get db i = Inr (Some p)" by (simp add: query_get_fits)
    then have "pet_id p = Some i" by (rule query_get_Some_id)
    with Some fits show ?thesis
      by (simp add: DELETE_pet_def delete_pets_def dispatch_def session_delete_commit_def
            query_get_fits)
  qed
  have gone: "find (\<lambda>p. pet_id p = Some i) (snd (DELETE_pet db i)) = None"
    by (simp add: rows find_filter_other)
  have gone': "query_get (snd (DELETE_pet db i)) i = Inr None"
    using fits gone by (simp add: query_get_fits)
  from st pl rows gone' absent[OF gone] absent[OF find_absent]
  show ?thesis by blast
qed

theorem delete_pets_idempotent_witness:
  "fits_int64 3 \<and> 3 \<notin> set (row_ids [fido, kitty]) \<and>
   status (fst (DELETE_pet [fido, kitty] 3)) = 204 \<and>
   payload (fst (DELETE_pet [fido, kitty] 3)) = Text [] \<and>
   snd (DELETE_pet [fido, kitty] 3) = [fido, kitty] \<and>
   fits_int64 1 \<and>
   status (fst (DELETE_pet [fido, kitty] 1)) = 204 \<and>
   snd (DELETE_pet [fido, kitty] 1) = [kitty] \<and>
   status (fst (DELETE_pet (snd (DELETE_pet [fido, kitty] 1)) 1)) = 204"
proof -
  have a: "fits_int64 3" and b: "fits_int64 1"
    by (simp_all add: fits_int64_def)
  have c: "3 \<notin> set (row_ids [fido, kitty])"
    by (simp add: row_ids_def map_filter_def fido_def kitty_def)
  have d: "[r \<leftarrow> [fido, kitty]. pet_id r \<noteq> Some 1] = [kitty]"
    by (simp add: fido_def kitty_def)
  have e: "[r \<leftarrow> [fido, kitty]. pet_id r \<noteq> Some 3] = [fido, kitty]"
    by (simp add: fido_def kitty_def)
  note absent = delete_pets_idempotent [OF a, of "[fido, kitty]", unfolded e]
  note present = delete_pets_idempotent [OF b, of "[fido, kitty]", unfolded d]
  from a b c absent present show ?thesis by blast
qed

text \<open>
  C2 as the specification words it fails for an id beyond the key's range: the route
  \<^verbatim>\<open>/pets/<int:id>\<close> accepts 9223372036854775808, the lookup cannot bind it, and the
  answer is that of the handler for 500.
\<close>

theorem delete_pets_large_id_counterexample:
  "status (fst (DELETE_pet [fido] 9223372036854775808)) = 500 \<and>
   payload (fst (DELETE_pet [fido] 9223372036854775808)) \<noteq> Text []"
  by (simp add: DELETE_pet_def delete_pets_def dispatch_def query_get_def fits_int64_def
        internal_error_def make_response_def jsonify_def HTTP_500_INTERNAL_SERVER_ERROR_def)

subsection \<open>Listing\<close>

text \<open>
  C3, as amended. For every non-empty string \<open>x\<close> and every table, \<^verbatim>\<open>GET /pets?category=x\<close>
  answers 200 with exactly the rows whose \<^verbatim>\<open>category\<close> is the string \<open>x\<close> (equality of
  strings, no partial match), in table order; without the parameter it answers 200 with
  all rows.
\<close>

theorem list_pets_filters_by_category:
  "(x \<noteq> [] \<longrightarrow>
      status (fst (GET_pets db (Some x))) = 200 \<and>
      payload (fst (GET_pets db (Some x))) =
        Json (JArr (map serialize [p \<leftarrow> db. category p = JStr x])) \<and>
      snd (GET_pets db (Some x)) = db) \<and>
   status (fst (GET_pets db None)) = 200 \<and>
   payload (fst (GET_pets db None)) = Json (JArr (map serialize db)) \<and>
   snd (GET_pets db None) = db"
  by (simp add: GET_pets_def list_pets_def dispatch_def make_response_def jsonify_def
        HTTP_200_OK_def query_all_def query_filter_category_def)

theorem list_pets_filters_by_category_witness:
  "''cat'' \<noteq> [] \<and>
   status (fst (GET_pets [fido, kitty] (Some ''cat''))) = 200 \<and>
   payload (fst (GET_pets [fido, kitty] (Some ''cat''))) = Json (JArr [serialize kitty]) \<and>
   payload (fst (GET_pets [fido, kitty] (Some ''ca''))) = Json (JArr [])"
  using list_pets_filters_by_category [of "''cat''" "[fido, kitty]"]
    list_pets_filters_by_category [of "''ca''" "[fido, kitty]"]
  by (simp add: fido_def kitty_def)

text \<open>
  C3 as the specification words it fails for the empty string: with one row of category
  \<^verbatim>\<open>dog\<close> in the table, \<^verbatim>\<open>GET /pets?category=\<close> returns that row, although its category is
  not the empty string and no row's is.
\<close>

theorem list_pets_empty_category_counterexample:
  "payload (fst (GET_pets [fido] (Some []))) = Json (JArr [serialize fido]) \<and>
   category fido \<noteq> JStr [] \<and>
   payload (fst (GET_pets [fido] (Some []))) \<noteq>
     Json (JArr (map serialize (records_with_category [fido] [])))"
  by (simp add: GET_pets_def list_pets_def dispatch_def make_response_def jsonify_def
        query_all_def records_with_category_def fido_def)

text \<open>
  C10. When the parameter \<^verbatim>\<open>category\<close> is present and empty, \<^verbatim>\<open>GET /pets?category=\<close> answers
  as it does without the parameter: with all rows of the table, not with the rows whose
  category is the empty string. The filter is applied for a non-empty value only.
\<close>

theorem list_pets_empty_category_returns_all:
  "GET_pets db (Some []) = GET_pets db None \<and>
   status (fst (GET_pets db (Some []))) = 200 \<and>
   payload (fst (GET_pets db (Some []))) = Json (JArr (map serialize db))"
  by (simp add: GET_pets_def list_pets_def dispatch_def make_response_def jsonify_def
        HTTP_200_OK_def query_all_def)

theorem list_pets_empty_category_returns_all_witness:
  "payload (fst (GET_pets [fido, kitty] (Some []))) =
     Json (JArr [serialize fido, serialize kitty]) \<and>
   records_with_category [fido, kitty] [] = []"
  using list_pets_empty_category_returns_all [of "[fido, kitty]", THEN conjunct2]
  by (simp add: records_with_category_def fido_def kitty_def)

subsection \<open>Updating\<close>

text \<open>
  C4, as amended. For an id that fits the table's signed 64-bit integer key and that no
  row has, \<^verbatim>\<open>PUT /pets/{id}\<close> answers 404 whatever the body is, and the table is
  unchanged; in particular still no row has that id.
\<close>

theorem update_pets_unknown_id_not_found:
  "fits_int64 i \<Longrightarrow> i \<notin> set (row_ids db) \<Longrightarrow>
     status (fst (PUT_pet db i data)) = 404 \<and> snd (PUT_pet db i data) = db \<and>
     i \<notin> set (row_ids (snd (PUT_pet db i data))) \<and>
     query_get (snd (PUT_pet db i data)) i = Inr None"
  by (simp add: PUT_pet_def update_pets_def query_get_or_404_def dispatch_def status_not_found
        query_get_absent)

theorem update_pets_unknown_id_not_found_witness:
  "fits_int64 2 \<and> 2 \<notin> set (row_ids [fido]) \<and>
   status (fst (PUT_pet [fido] 2
     (JObj [(''name'', JStr ''kitty''), (''category'', JStr ''cat'')]))) = 404 \<and>
   snd (PUT_pet [fido] 2 (JObj [(''name'', JStr ''kitty''), (''category'', JStr ''cat'')])) = [fido]"
proof -
  have a: "fits_int64 2"
    by (simp add: fits_int64_def)
  have b: "2 \<notin> set (row_ids [fido])"
    by (simp add: row_ids_def map_filter_def fido_def)
  show ?thesis
    using update_pets_unknown_id_not_found
        [OF a b, of "JObj [(''name'', JStr ''kitty''), (''category'', JStr ''cat'')]"] a b
    by simp
qed

text \<open>
  C4 as the specification words it fails for an id beyond the key's range: no row has
  the id 9223372036854775808, the route accepts it, and \<^verbatim>\<open>get_or_404\<close> raises on binding
  it, so the answer is 500 and not 404.
\<close>

theorem update_pets_large_id_counterexample:
  "9223372036854775808 \<notin> set (row_ids [fido]) \<and>
   status (fst (PUT_pet [fido] 9223372036854775808
     (JObj [(''name'', JStr ''kitty''), (''category'', JStr ''cat'')]))) = 500"
  by (simp add: PUT_pet_def update_pets_def query_get_or_404_def dispatch_def query_get_def
        fits_int64_def status_internal_error row_ids_def map_filter_def fido_def)

text \<open>
  C9. For an id that a row has and a body that is not a JSON object or lacks \<^verbatim>\<open>name\<close> or
  \<^verbatim>\<open>category\<close>, \<^verbatim>\<open>PUT /pets/{id}\<close> answers 400 and the table is unchanged: the row with
  that id, its \<^verbatim>\<open>name\<close> and \<^verbatim>\<open>category\<close> included, is the one from before the request. This
  holds also when \<^verbatim>\<open>deserialize\<close> had already assigned \<^verbatim>\<open>name\<close> to the loaded object
  before it failed on \<^verbatim>\<open>category\<close>.
\<close>

theorem update_pets_invalid_body_atomic:
  "query_get db i = Inr (Some p) \<Longrightarrow> \<not> valid_body data \<Longrightarrow>
     status (fst (PUT_pet db i data)) = 400 \<and> snd (PUT_pet db i data) = db \<and>
     query_get (snd (PUT_pet db i data)) i = Inr (Some p)"
  using deserialize_invalid[of data p]
  by (auto simp: PUT_pet_def update_pets_def query_get_or_404_def dispatch_def
        status_request_validation_error split: prod.splits option.splits)

theorem update_pets_invalid_body_atomic_witness:
  "query_get [fido] 1 = Inr (Some fido) \<and>
   \<not> valid_body (JObj [(''name'', JStr ''rex'')]) \<and>
   fst (deserialize fido (JObj [(''name'', JStr ''rex'')])) = fido\<lparr>name := JStr ''rex''\<rparr> \<and>
   status (fst (PUT_pet [fido] 1 (JObj [(''name'', JStr ''rex'')]))) = 400 \<and>
   snd (PUT_pet [fido] 1 (JObj [(''name'', JStr ''rex'')])) = [fido]"
  using update_pets_invalid_body_atomic [of "[fido]" 1 fido "JObj [(''name'', JStr ''rex'')]"]
  by (simp add: query_get_def fits_int64_def fido_def valid_body_def deserialize_def)

subsection \<open>Serialising and deserialising\<close>

text \<open>
  C5. For every JSON object with the keys \<^verbatim>\<open>name\<close> and \<^verbatim>\<open>category\<close>, deserialising it
  succeeds, and serialising the result gives back the same \<^verbatim>\<open>name\<close> and \<^verbatim>\<open>category\<close>
  values. Deserialising never touches the id: it stays what it was, and is unset for a
  fresh \<^verbatim>\<open>Pet()\<close>, whether or not the object has a key \<^verbatim>\<open>id\<close>.
\<close>

theorem deserialize_serialize_roundtrip:
  "valid_body data \<Longrightarrow>
     snd (deserialize self data) = None \<and>
     getitem (serialize (fst (deserialize self data))) ''name'' = getitem data ''name'' \<and>
     getitem (serialize (fst (deserialize self data))) ''category'' = getitem data ''category'' \<and>
     pet_id (fst (deserialize self data)) = pet_id self \<and>
     pet_id (fst (deserialize Pet data)) = None"
  using deserialize_valid[of data self] deserialize_valid[of data Pet]
  by (auto simp: serialize_def Pet_def)

theorem deserialize_serialize_roundtrip_witness:
  "valid_body (JObj [(''id'', JNum 1), (''name'', JStr ''kitty''), (''category'', JStr ''cat''),
                     (''available'', JBool True)]) \<and>
   getitem (serialize (fst (deserialize Pet
      (JObj [(''id'', JNum 1), (''name'', JStr ''kitty''), (''category'', JStr ''cat''),
             (''available'', JBool True)])))) ''name'' = Inr (JStr ''kitty'') \<and>
   getitem (serialize (fst (deserialize Pet
      (JObj [(''id'', JNum 1), (''name'', JStr ''kitty''), (''category'', JStr ''cat''),
             (''available'', JBool True)])))) ''category'' = Inr (JStr ''cat'') \<and>
   pet_id (fst (deserialize Pet
      (JObj [(''id'', JNum 1), (''name'', JStr ''kitty''), (''category'', JStr ''cat''),
             (''available'', JBool True)]))) = None"
  using deserialize_serialize_roundtrip
      [of "JObj [(''id'', JNum 1), (''name'', JStr ''kitty''), (''category'', JStr ''cat''),
                 (''available'', JBool True)]" Pet]
  by (simp add: valid_body_def Pet_def)

text \<open>
  C6. The specification lists \<^verbatim>\<open>available\<close> among the keys of a serialised pet.
  \<^verbatim>\<open>serialize\<close> returns the three keys \<^verbatim>\<open>id\<close>, \<^verbatim>\<open>name\<close> and \<^verbatim>\<open>category\<close> and no key
  \<^verbatim>\<open>available\<close>, here for the pet of \<^verbatim>\<open>test_serialize_a_pet\<close>.
\<close>

theorem serialize_has_no_available:
  "serialize \<lparr>pet_id = None, name = JStr ''fido'', category = JStr ''dog''\<rparr> =
     JObj [(''id'', JNull), (''name'', JStr ''fido''), (''category'', JStr ''dog'')] \<and>
   json_keys (serialize \<lparr>pet_id = None, name = JStr ''fido'', category = JStr ''dog''\<rparr>) =
     [''id'', ''name'', ''category''] \<and>
   \<not> has_key (serialize \<lparr>pet_id = None, name = JStr ''fido'', category = JStr ''dog''\<rparr>)
        ''available''"
  by (simp add: serialize_def)

text \<open>
  C7. \<^verbatim>\<open>deserialize\<close> on a JSON object without the key \<^verbatim>\<open>name\<close> raises a validation error
  whose message names \<^verbatim>\<open>name\<close>; on an object with \<^verbatim>\<open>name\<close> and without \<^verbatim>\<open>category\<close>, one
  whose message names \<^verbatim>\<open>category\<close>; on anything that is not an object (a string, null,
  a number, a list), one with the message about bad or no data. The handler of a
  validation error answers 400 and carries the message.
\<close>

theorem deserialize_validation_failures:
  "(is_object data \<and> \<not> has_key data ''name'' \<longrightarrow>
      snd (deserialize self data) = Some (DataValidationError ''Invalid pet: missing name'')) \<and>
   (is_object data \<and> has_key data ''name'' \<and> \<not> has_key data ''category'' \<longrightarrow>
      snd (deserialize self data) = Some (DataValidationError ''Invalid pet: missing category'')) \<and>
   (\<not> is_object data \<longrightarrow>
      snd (deserialize self data) =
        Some (DataValidationError ''Invalid pet: body of request contained bad or no data'')) \<and>
   status (errorhandler (DataValidationError m)) = 400 \<and>
   payload (errorhandler (DataValidationError m)) =
     Json (JObj [(''status'', JNum 400), (''error'', JStr ''Bad Request''), (''message'', JStr m)])"
  by (cases data)
     (auto simp: deserialize_def request_validation_error_def make_response_def jsonify_def
        HTTP_400_BAD_REQUEST_def split: option.splits)

theorem deserialize_validation_failures_witness:
  "snd (deserialize Pet (JObj [(''id'', JNum 0), (''category'', JStr ''cat'')])) =
     Some (DataValidationError ''Invalid pet: missing name'') \<and>
   snd (deserialize Pet (JObj [(''name'', JStr ''kitty'')])) =
     Some (DataValidationError ''Invalid pet: missing category'') \<and>
   snd (deserialize Pet (JStr ''data'')) =
     Some (DataValidationError ''Invalid pet: body of request contained bad or no data'') \<and>
   snd (deserialize Pet JNull) =
     Some (DataValidationError ''Invalid pet: body of request contained bad or no data'') \<and>
   status (errorhandler (DataValidationError ''Invalid pet: missing name'')) = 400"
  using
    deserialize_validation_failures
      [of "JObj [(''id'', JNum 0), (''category'', JStr ''cat'')]" Pet "''Invalid pet: missing name''"]
    deserialize_validation_failures
      [of "JObj [(''name'', JStr ''kitty'')]" Pet "''Invalid pet: missing name''"]
    deserialize_validation_failures [of "JStr ''data''" Pet "''Invalid pet: missing name''"]
    deserialize_validation_failures [of JNull Pet "''Invalid pet: missing name''"]
  by simp

subsection \<open>Reading a pet back\<close>

text \<open>
  C8, as amended. When a \<^verbatim>\<open>POST /pets\<close> supplies a \<^verbatim>\<open>name\<close> and a \<^verbatim>\<open>category\<close> that are
  strings (or null), the pet is created (201) under an id that no row had, and
  \<^verbatim>\<open>GET /pets/{id}\<close> with that id then answers 200 with the object that holds exactly the
  assigned \<^verbatim>\<open>id\<close> and the supplied \<^verbatim>\<open>name\<close> and \<^verbatim>\<open>category\<close>. For an id that fits the table's
  signed 64-bit integer key and that no row has, \<^verbatim>\<open>GET /pets/{id}\<close> answers 404. (The
  table is one whose next key still fits, as every table the service can build is.)
\<close>

theorem get_pets_after_create:
  "(getitem data ''name'' = Inr n \<and> getitem data ''category'' = Inr c \<and>
    text_or_null n \<and> text_or_null c \<and> fits_int64 (next_id db) \<longrightarrow>
      next_id db \<notin> set (row_ids db) \<and>
      status (fst (POST_pets url_root db data)) = 201 \<and>
      payload (fst (POST_pets url_root db data)) =
        Json (JObj [(''id'', JNum (next_id db)), (''name'', n), (''category'', c)]) \<and>
      status (fst (GET_pet (snd (POST_pets url_root db data)) (next_id db))) = 200 \<and>
      payload (fst (GET_pet (snd (POST_pets url_root db data)) (next_id db))) =
        Json (JObj [(''id'', JNum (next_id db)), (''name'', n), (''category'', c)])) \<and>
   (fits_int64 i \<and> i \<notin> set (row_ids db) \<longrightarrow> status (fst (GET_pet db i)) = 404)"
proof -
  let ?q = "\<lparr>pet_id = Some (next_id db), name = n, category = c\<rparr>"
  have created: "POST_pets url_root db data =
      (make_response (jsonify (serialize ?q)) HTTP_201_CREATED
         [(''Location'', url_root @ ''pets/'' @ str_int (next_id db))],
       db @ [?q])"
    if "getitem data ''name'' = Inr n" "getitem data ''category'' = Inr c"
      "text_or_null n" "text_or_null c"
    using that
    by (simp add: POST_pets_def create_pets_def dispatch_def deserialize_values
          session_add_commit_def self_url_def Let_def Pet_def bind_text_text_or_null)
  have fetched: "GET_pet (db @ [?q]) (next_id db) =
      (make_response (jsonify (serialize ?q)) HTTP_200_OK [], db @ [?q])"
    if "fits_int64 (next_id db)"
    using that by (simp add: GET_pet_def get_pets_def dispatch_def query_get_append_new)
  have missing: "status (fst (GET_pet db i)) = 404"
    if "fits_int64 i" "i \<notin> set (row_ids db)"
    using that by (simp add: GET_pet_def get_pets_def dispatch_def status_not_found query_get_absent)
  show ?thesis
    using created fetched missing next_id_unused[of db]
    by (auto simp: make_response_def jsonify_def serialize_def
          HTTP_201_CREATED_def HTTP_200_OK_def)
qed

theorem get_pets_after_create_witness:
  "getitem (JObj [(''name'', JStr ''kitty''), (''category'', JStr ''cat'')]) ''name'' =
     Inr (JStr ''kitty'') \<and>
   getitem (JObj [(''name'', JStr ''kitty''), (''category'', JStr ''cat'')]) ''category'' =
     Inr (JStr ''cat'') \<and>
   text_or_null (JStr ''kitty'') \<and> text_or_null (JStr ''cat'') \<and>
   next_id [fido] = 2 \<and> fits_int64 (next_id [fido]) \<and>
   status (fst (POST_pets ''http://localhost:5000/'' [fido]
     (JObj [(''name'', JStr ''kitty''), (''category'', JStr ''cat'')]))) = 201 \<and>
   payload (fst (GET_pet (snd (POST_pets ''http://localhost:5000/'' [fido]
     (JObj [(''name'', JStr ''kitty''), (''category'', JStr ''cat'')]))) 2)) =
     Json (JObj [(''id'', JNum 2), (''name'', JStr ''kitty''), (''category'', JStr ''cat'')]) \<and>
   fits_int64 5 \<and> 5 \<notin> set (row_ids [fido]) \<and>
   status (fst (GET_pet [fido] 5)) = 404"
proof -
  have n: "next_id [fido] = 2"
    by (simp add: next_id_def row_ids_def map_filter_def fido_def)
  have f: "fits_int64 2" "fits_int64 5"
    by (simp_all add: fits_int64_def)
  have q: "5 \<notin> set (row_ids [fido])"
    by (simp add: row_ids_def map_filter_def fido_def)
  show ?thesis
    using get_pets_after_create
        [of "JObj [(''name'', JStr ''kitty''), (''category'', JStr ''cat'')]"
          "JStr ''kitty''" "JStr ''cat''" "[fido]" "''http://localhost:5000/''" 5] n f q
    by simp
qed

text \<open>
  C8 as the specification words it fails in both halves. A pet created with the number
  5 as its \<^verbatim>\<open>name\<close> is read back with the text \<^verbatim>\<open>"5"\<close>, which is not the value supplied;
  and for the id 9223372036854775808, which no row has, the answer is 500 and not 404.
\<close>

theorem get_pets_after_create_counterexample:
  "status (fst (POST_pets ''http://localhost:5000/'' []
     (JObj [(''name'', JNum 5), (''category'', JStr ''dog'')]))) = 201 \<and>
   payload (fst (GET_pet (snd (POST_pets ''http://localhost:5000/'' []
     (JObj [(''name'', JNum 5), (''category'', JStr ''dog'')]))) 1)) =
     Json (JObj [(''id'', JNum 1), (''name'', JStr ''5''), (''category'', JStr ''dog'')]) \<and>
   payload (fst (GET_pet (snd (POST_pets ''http://localhost:5000/'' []
     (JObj [(''name'', JNum 5), (''category'', JStr ''dog'')]))) 1)) \<noteq>
     Json (JObj [(''id'', JNum 1), (''name'', JNum 5), (''category'', JStr ''dog'')]) \<and>
   9223372036854775808 \<notin> set (row_ids []) \<and>
   status (fst (GET_pet [] 9223372036854775808)) = 500"
  by (simp add: POST_pets_def create_pets_def dispatch_def deserialize_def Pet_def
        session_add_commit_def self_url_def next_id_def row_ids_def map_filter_def Let_def
        GET_pet_def get_pets_def query_get_def fits_int64_def serialize_def
        str_int_def str_nat.simps digit_def make_response_def jsonify_def
        HTTP_201_CREATED_def HTTP_200_OK_def status_internal_error)

end
